theory Spec2Isabelle
  imports Complex_Main "HOL-Library.Word"
begin

chapter \<open>Nexify backend: similarity engine, analytics, authentication utilities\<close>

text \<open>
  A shallow embedding of the Python sources under \<^verbatim>\<open>src/backend/src\<close>:
  \<^verbatim>\<open>utils/ai_engine.py\<close> (the similarity heuristic), \<^verbatim>\<open>utils/auth.py\<close> (password
  hashing, input sanitising, validation, the in-memory rate limiter),
  \<^verbatim>\<open>models/contact.py\<close> (the rows and \<^verbatim>\<open>to_dict\<close>), \<^verbatim>\<open>routes/analytics.py\<close>
  (network density), \<^verbatim>\<open>routes/connections.py\<close> (suggestion generation),
  \<^verbatim>\<open>routes/auth.py\<close> (registration and login) and, by the status of their responses,
  the other handlers of the route files and of the two \<^verbatim>\<open>main.py\<close>.

  Conventions of the embedding.
  \<^item> A Python \<^verbatim>\<open>str\<close> is a \<^typ>\<open>string\<close>; a \<^typ>\<open>char\<close> stands for the code point of the
    same number, so the strings of the model are the Python strings over the code points
    0 to 255 (ASCII and Latin-1, which covers the accented Spanish keywords of the engine).
  \<^item> A Python \<^verbatim>\<open>float\<close> is an exact rational (\<^typ>\<open>rat\<close>): sums, products and quotients
    are not rounded. Every statement about a score is a statement of exact arithmetic.
  \<^item> An exception is a value: a function that can raise returns \<open>pyerror + 'a\<close>, with
    \<open>Inl\<close> for the exception.
  \<^item> The clock (\<^verbatim>\<open>datetime.utcnow()\<close>), the random salt bytes
    (\<^verbatim>\<open>secrets.token_hex\<close>) and the SHA-256 digest (\<^verbatim>\<open>hashlib.sha256\<close>) are
    library calls; the model takes their results as arguments.
\<close>

section \<open>Python values and string operations\<close>

datatype pyerror = AttributeError | ValueError | TypeError

text \<open>A JSON value as \<^verbatim>\<open>request.get_json()\<close> delivers it; an object is a list of
  key and value pairs, looked up with \<^const>\<open>map_of\<close>.\<close>

datatype json =
    JNull
  | JBool bool
  | JNum int
  | JStr string
  | JList "json list"
  | JObj "(string \<times> json) list"

text \<open>\<^verbatim>\<open>sub in s\<close> for two strings: \<open>sub\<close> occurs in \<open>s\<close> as a contiguous block.\<close>

fun starts_with :: "string \<Rightarrow> string \<Rightarrow> bool" where
  "starts_with s [] = True"
| "starts_with [] (p # ps) = False"
| "starts_with (c # cs) (p # ps) = (c = p \<and> starts_with cs ps)"

fun contains :: "string \<Rightarrow> string \<Rightarrow> bool" where
  "contains [] sub = (sub = [])"
| "contains (c # cs) sub = (starts_with (c # cs) sub \<or> contains cs sub)"

text \<open>\<^verbatim>\<open>str.lower()\<close> on the code points below 256: the ASCII capitals and the
  Latin-1 capitals \<open>0xC0\<close> to \<open>0xDE\<close> (but the multiplication sign \<open>0xD7\<close>) move up by 32.\<close>

definition lower_char :: "char \<Rightarrow> char" where
  "lower_char c =
     (let n = (of_char c :: nat)
      in if (65 \<le> n \<and> n \<le> 90) \<or> (192 \<le> n \<and> n \<le> 222 \<and> n \<noteq> 215)
         then char_of (n + 32) else c)"

definition lower :: "string \<Rightarrow> string" where
  "lower s = map lower_char s"

text \<open>\<^verbatim>\<open>str.isspace()\<close> of one code point below 256.\<close>

definition is_space :: "char \<Rightarrow> bool" where
  "is_space c =
     (let n = (of_char c :: nat)
      in (9 \<le> n \<and> n \<le> 13) \<or> (28 \<le> n \<and> n \<le> 32) \<or> n = 133 \<or> n = 160)"

text \<open>\<^verbatim>\<open>s.split()\<close> with no argument: the maximal runs of non-space characters, in
  order. \<open>w\<close> is the word being read.\<close>

fun split_acc :: "string \<Rightarrow> string \<Rightarrow> string list" where
  "split_acc w [] = (if w = [] then [] else [w])"
| "split_acc w (c # cs) =
     (if is_space c then (if w = [] then split_acc [] cs else w # split_acc [] cs)
      else split_acc (w @ [c]) cs)"

definition py_split :: "string \<Rightarrow> string list" where
  "py_split s = split_acc [] s"


text \<open>\<^verbatim>\<open>s.replace(old, new)\<close> for one-character \<open>old\<close>, with \<open>new\<close> any string.\<close>

definition replace_char :: "char \<Rightarrow> string \<Rightarrow> string \<Rightarrow> string" where
  "replace_char old new s = concat (map (\<lambda>c. if c = old then new else [c]) s)"

section \<open>\<^verbatim>\<open>utils/auth.py\<close>: the authentication manager\<close>

subsection \<open>Password hashing\<close>







subsection \<open>Input sanitising\<close>

definition dangerous_chars :: "char list" where
  "dangerous_chars = [CHR ''<'', CHR ''>'', CHR 0x22, CHR 0x27, CHR ''&'', CHR 0x00]"

text \<open>
  \<^verbatim>\<open>
  def sanitize_input(self, data: str) -> str:
      if not isinstance(data, str):
          return data
      dangerous_chars = ['<', '>', '"', "'", '&', '\x00']
      for char in dangerous_chars:
          data = data.replace(char, '')
      return data[:1000]
  \<close>
\<close>

definition sanitize_str :: "string \<Rightarrow> string" where
  "sanitize_str data = take 1000 (foldl (\<lambda>d char. replace_char char [] d) data dangerous_chars)"

fun sanitize_input :: "json \<Rightarrow> json" where
  "sanitize_input (JStr data) = JStr (sanitize_str data)"
| "sanitize_input data = data"

subsection \<open>The in-memory rate limiter\<close>

text \<open>Time is \<^verbatim>\<open>datetime\<close>'s own unit, whole microseconds; \<^verbatim>\<open>timedelta(minutes=m)\<close>
  is \<open>minutes m\<close>.\<close>

type_synonym datetime = int

definition minutes :: "int \<Rightarrow> int" where
  "minutes m = m * 60000000"







text \<open>A history of the limiter: the calls made on one manager since it was created,
  each with the time the clock showed.\<close>

datatype limiter_call =
    RecordAttempt string datetime
  | RateLimitCheck string "int option" int datetime





text \<open>The start of the window of every check a history made on an identifier.\<close>

fun window_starts :: "string \<Rightarrow> limiter_call list \<Rightarrow> datetime list" where
  "window_starts identifier [] = []"
| "window_starts identifier (RecordAttempt i t # calls) = window_starts identifier calls"
| "window_starts identifier (RateLimitCheck i m w t # calls) =
     (if i = identifier then [t - minutes w] else []) @ window_starts identifier calls"

subsection \<open>Password strength and e-mail format\<close>











section \<open>\<^verbatim>\<open>utils/ai_engine.py\<close>: the similarity engine\<close>

subsection \<open>Contact dictionaries\<close>

text \<open>
  The engine reads contacts as dictionaries (\<^verbatim>\<open>contact1: Dict\<close>), built by
  \<^verbatim>\<open>Contact.to_dict()\<close>. A value of such a dictionary is \<^verbatim>\<open>None\<close>, an integer, a
  string or the list of the contact's social profiles; of a profile's dictionary the
  engine reads \<^verbatim>\<open>p.get('platform')\<close> only, which is \<open>None\<close> for a missing key.
\<close>

datatype profile_dict = ProfileDict (platform: "string option")

datatype pyval = PNone | PInt int | PStr string | PProfiles "profile_dict list"

type_synonym contact_dict = "string \<rightharpoonup> pyval"

text \<open>\<^verbatim>\<open>d.get(key, default)\<close>: the default stands in for a missing key only; a key
  that is present with the value \<^verbatim>\<open>None\<close> gives \<^verbatim>\<open>None\<close>.\<close>

definition dict_get :: "contact_dict \<Rightarrow> string \<Rightarrow> pyval \<Rightarrow> pyval" where
  "dict_get d key dflt = (case d key of None \<Rightarrow> dflt | Some v \<Rightarrow> v)"

text \<open>\<^verbatim>\<open>v.lower()\<close>: only a string has the method; on any other value the attribute
  lookup raises \<^verbatim>\<open>AttributeError\<close>.\<close>

fun str_lower :: "pyval \<Rightarrow> pyerror + string" where
  "str_lower (PStr s) = Inr (lower s)"
| "str_lower v = Inl AttributeError"

text \<open>\<^verbatim>\<open>not v\<close> is \<open>\<not> truthy v\<close>.\<close>

fun truthy :: "pyval \<Rightarrow> bool" where
  "truthy PNone = False"
| "truthy (PInt n) = (n \<noteq> 0)"
| "truthy (PStr s) = (s \<noteq> [])"
| "truthy (PProfiles ps) = (ps \<noteq> [])"

text \<open>\<^verbatim>\<open>{p.get('platform') for p in profiles}\<close>, as the list of the platforms in
  the order of the profiles. It is evaluated on truthy values only: the elements of a
  string are strings, which have no \<^verbatim>\<open>get\<close>; a number is not iterable.\<close>

fun platforms_of :: "pyval \<Rightarrow> pyerror + string option list" where
  "platforms_of (PProfiles ps) = Inr (map platform ps)"
| "platforms_of (PStr s) = Inl AttributeError"
| "platforms_of v = Inl TypeError"

subsection \<open>The engine and its five factors\<close>

record ai_engine =
  industry_keywords :: "(string \<times> string list) list"
  platform_weights :: "(string \<times> rat) list"

text \<open>\<^verbatim>\<open>AIEngine.__init__\<close>. The accented letters are written by code point:
  \<open>0xED\<close> is i acute, \<open>0xF3\<close> o acute, \<open>0xF1\<close> n tilde.\<close>

definition new_AIEngine :: ai_engine where
  "new_AIEngine = \<lparr>
     industry_keywords =
       [(''tecnolog'' @ [CHR 0xED] @ ''a'',
           [''tech'', ''software'', ''desarrollo'', ''programaci'' @ [CHR 0xF3] @ ''n'',
            ''ai'', ''ia'', ''datos'', ''digital'']),
        (''marketing'',
           [''marketing'', ''publicidad'', ''social media'', ''contenido'', ''branding'']),
        (''finanzas'',
           [''finanzas'', ''banca'', ''inversi'' @ [CHR 0xF3] @ ''n'', ''contabilidad'',
            ''econom'' @ [CHR 0xED] @ ''a'']),
        (''salud'',
           [''salud'', ''medicina'', ''farmacia'', ''hospital'', ''cl'' @ [CHR 0xED] @ ''nica'']),
        (''educaci'' @ [CHR 0xF3] @ ''n'',
           [''educaci'' @ [CHR 0xF3] @ ''n'', ''universidad'', ''ense'' @ [CHR 0xF1] @ ''anza'',
            ''formaci'' @ [CHR 0xF3] @ ''n'', ''academia'']),
        (''consultor'' @ [CHR 0xED] @ ''a'',
           [''consultor'' @ [CHR 0xED] @ ''a'', ''asesor'' @ [CHR 0xED] @ ''a'', ''estrategia'',
            ''gesti'' @ [CHR 0xF3] @ ''n'', ''negocios''])],
     platform_weights =
       [(''linkedin'', 1), (''facebook'', 7/10), (''instagram'', 8/10), (''tiktok'', 6/10)] \<rparr>"

text \<open>
  \<^verbatim>\<open>
  def _calculate_industry_similarity(self, contact1, contact2):
      industry1 = contact1.get('industry', '').lower()
      industry2 = contact2.get('industry', '').lower()
      if not industry1 or not industry2:
          return 0.0
      if industry1 == industry2:
          return 1.0
      for category, keywords in self.industry_keywords.items():
          found1 = any(keyword in industry1 for keyword in keywords)
          found2 = any(keyword in industry2 for keyword in keywords)
          if found1 and found2:
              return 0.7
      words1 = set(industry1.split())
      words2 = set(industry2.split())
      common_words = words1.intersection(words2)
      if common_words:
          return len(common_words) / max(len(words1), len(words2))
      return 0.0
  \<close>
\<close>

definition calculate_industry_similarity ::
  "ai_engine \<Rightarrow> contact_dict \<Rightarrow> contact_dict \<Rightarrow> pyerror + rat" where
  "calculate_industry_similarity self contact1 contact2 =
     (case str_lower (dict_get contact1 ''industry'' (PStr [])) of
        Inl e \<Rightarrow> Inl e
      | Inr industry1 \<Rightarrow>
     (case str_lower (dict_get contact2 ''industry'' (PStr [])) of
        Inl e \<Rightarrow> Inl e
      | Inr industry2 \<Rightarrow>
          Inr (if industry1 = [] \<or> industry2 = [] then 0
               else if industry1 = industry2 then 1
               else if list_ex (\<lambda>(category, keywords).
                          list_ex (\<lambda>keyword. contains industry1 keyword) keywords
                          \<and> list_ex (\<lambda>keyword. contains industry2 keyword) keywords)
                        (industry_keywords self)
               then 7/10
               else (let words1 = set (py_split industry1);
                         words2 = set (py_split industry2);
                         common_words = words1 \<inter> words2
                     in if common_words \<noteq> {}
                        then of_nat (card common_words) / of_nat (max (card words1) (card words2))
                        else 0))))"

text \<open>
  \<^verbatim>\<open>
  def _calculate_location_similarity(self, contact1, contact2):
      location1 = contact1.get('location', '').lower()
      location2 = contact2.get('location', '').lower()
      if not location1 or not location2:
          return 0.0
      if location1 == location2:
          return 1.0
      words1 = set(location1.replace(',', ' ').split())
      words2 = set(location2.replace(',', ' ').split())
      common_words = words1.intersection(words2)
      if common_words:
          return 0.8 if len(common_words) >= 2 else 0.5
      return 0.0
  \<close>
\<close>

definition calculate_location_similarity :: "contact_dict \<Rightarrow> contact_dict \<Rightarrow> pyerror + rat" where
  "calculate_location_similarity contact1 contact2 =
     (case str_lower (dict_get contact1 ''location'' (PStr [])) of
        Inl e \<Rightarrow> Inl e
      | Inr location1 \<Rightarrow>
     (case str_lower (dict_get contact2 ''location'' (PStr [])) of
        Inl e \<Rightarrow> Inl e
      | Inr location2 \<Rightarrow>
          Inr (if location1 = [] \<or> location2 = [] then 0
               else if location1 = location2 then 1
               else (let words1 = set (py_split (replace_char CHR '','' '' '' location1));
                         words2 = set (py_split (replace_char CHR '','' '' '' location2));
                         common_words = words1 \<inter> words2
                     in if common_words \<noteq> {}
                        then (if card common_words \<ge> 2 then 8/10 else 5/10)
                        else 0))))"

text \<open>
  \<^verbatim>\<open>
  def _calculate_company_similarity(self, contact1, contact2):
      company1 = contact1.get('company', '').lower()
      company2 = contact2.get('company', '').lower()
      if not company1 or not company2:
          return 0.0
      if company1 == company2:
          return 1.0
      if company1 in company2 or company2 in company1:
          return 0.6
      return 0.0
  \<close>
\<close>

definition calculate_company_similarity :: "contact_dict \<Rightarrow> contact_dict \<Rightarrow> pyerror + rat" where
  "calculate_company_similarity contact1 contact2 =
     (case str_lower (dict_get contact1 ''company'' (PStr [])) of
        Inl e \<Rightarrow> Inl e
      | Inr company1 \<Rightarrow>
     (case str_lower (dict_get contact2 ''company'' (PStr [])) of
        Inl e \<Rightarrow> Inl e
      | Inr company2 \<Rightarrow>
          Inr (if company1 = [] \<or> company2 = [] then 0
               else if company1 = company2 then 1
               else if contains company2 company1 \<or> contains company1 company2 then 6/10
               else 0)))"

text \<open>\<^verbatim>\<open>self.platform_weights.get(platform, 0.5)\<close>.\<close>

definition platform_weight :: "ai_engine \<Rightarrow> string option \<Rightarrow> rat" where
  "platform_weight self p =
     (case p of
        None \<Rightarrow> 1/2
      | Some name \<Rightarrow> (case map_of (platform_weights self) name of None \<Rightarrow> 1/2 | Some w \<Rightarrow> w))"

text \<open>
  The loop of \<^verbatim>\<open>_calculate_social_similarity\<close>, run over the platforms in the order
  \<open>ps\<close> in which the set \<^verbatim>\<open>platforms1.union(platforms2)\<close> is iterated:
  \<^verbatim>\<open>
      total_weight = 0.0
      common_weight = 0.0
      for platform in platforms1.union(platforms2):
          weight = self.platform_weights.get(platform, 0.5)
          total_weight += weight
          if platform in common_platforms:
              common_weight += weight
  \<close>
\<close>

definition social_loop :: "ai_engine \<Rightarrow> string option set \<Rightarrow> string option list \<Rightarrow> rat \<times> rat" where
  "social_loop self common_platforms ps =
     foldl (\<lambda>(total_weight, common_weight) p.
              let weight = platform_weight self p
              in (total_weight + weight,
                  if p \<in> common_platforms then common_weight + weight else common_weight))
           (0, 0) ps"


definition union_order :: "'a list \<Rightarrow> 'a list \<Rightarrow> 'a list" where
  "union_order l1 l2 = remdups (l1 @ l2)"

text \<open>
  \<^verbatim>\<open>
  def _calculate_social_similarity(self, contact1, contact2):
      profiles1 = contact1.get('social_profiles', [])
      profiles2 = contact2.get('social_profiles', [])
      if not profiles1 or not profiles2:
          return 0.0
      platforms1 = {p.get('platform') for p in profiles1}
      platforms2 = {p.get('platform') for p in profiles2}
      common_platforms = platforms1.intersection(platforms2)
      if not common_platforms:
          return 0.0
      ... the loop above ...
      return common_weight / total_weight if total_weight > 0 else 0.0
  \<close>
\<close>

definition calculate_social_similarity_in ::
  "(string option list \<Rightarrow> string option list \<Rightarrow> string option list)
     \<Rightarrow> ai_engine \<Rightarrow> contact_dict \<Rightarrow> contact_dict \<Rightarrow> pyerror + rat" where
  "calculate_social_similarity_in iter self contact1 contact2 =
     (let profiles1 = dict_get contact1 ''social_profiles'' (PProfiles []);
          profiles2 = dict_get contact2 ''social_profiles'' (PProfiles [])
      in if \<not> truthy profiles1 \<or> \<not> truthy profiles2 then Inr 0
         else (case platforms_of profiles1 of
                 Inl e \<Rightarrow> Inl e
               | Inr platforms1 \<Rightarrow>
              (case platforms_of profiles2 of
                 Inl e \<Rightarrow> Inl e
               | Inr platforms2 \<Rightarrow>
                   Inr (let common_platforms = set platforms1 \<inter> set platforms2
                        in if common_platforms = {} then 0
                           else (case social_loop self common_platforms (iter platforms1 platforms2) of
                                   (total_weight, common_weight) \<Rightarrow>
                                     if total_weight > 0 then common_weight / total_weight else 0)))))"

definition calculate_social_similarity ::
  "ai_engine \<Rightarrow> contact_dict \<Rightarrow> contact_dict \<Rightarrow> pyerror + rat" where
  "calculate_social_similarity = calculate_social_similarity_in union_order"

text \<open>
  \<^verbatim>\<open>
  def _get_professional_level(self, position, senior_kw, mid_kw, junior_kw):
      if any(keyword in position for keyword in senior_kw):
          return 2
      elif any(keyword in position for keyword in mid_kw):
          return 1
      elif any(keyword in position for keyword in junior_kw):
          return 0
      else:
          return 1
  \<close>
\<close>

definition get_professional_level :: "string \<Rightarrow> string list \<Rightarrow> string list \<Rightarrow> string list \<Rightarrow> int" where
  "get_professional_level position senior_kw mid_kw junior_kw =
     (if list_ex (\<lambda>keyword. contains position keyword) senior_kw then 2
      else if list_ex (\<lambda>keyword. contains position keyword) mid_kw then 1
      else if list_ex (\<lambda>keyword. contains position keyword) junior_kw then 0
      else 1)"

definition senior_keywords :: "string list" where
  "senior_keywords = [''ceo'', ''cto'', ''cfo'', ''director'', ''gerente'', ''manager'', ''lead'', ''senior'']"

definition mid_keywords :: "string list" where
  "mid_keywords = [''analista'', ''especialista'', ''coordinator'', ''supervisor'']"

definition junior_keywords :: "string list" where
  "junior_keywords = [''junior'', ''asistente'', ''trainee'', ''intern'']"

text \<open>
  \<^verbatim>\<open>
  def _calculate_professional_level_similarity(self, contact1, contact2):
      position1 = contact1.get('position', '').lower()
      position2 = contact2.get('position', '').lower()
      if not position1 or not position2:
          return 0.0
      level1 = self._get_professional_level(position1, senior_keywords, ...)
      level2 = self._get_professional_level(position2, senior_keywords, ...)
      if level1 == level2:
          return 0.8
      elif abs(level1 - level2) == 1:
          return 0.4
      return 0.0
  \<close>
\<close>

definition calculate_professional_level_similarity ::
  "contact_dict \<Rightarrow> contact_dict \<Rightarrow> pyerror + rat" where
  "calculate_professional_level_similarity contact1 contact2 =
     (case str_lower (dict_get contact1 ''position'' (PStr [])) of
        Inl e \<Rightarrow> Inl e
      | Inr position1 \<Rightarrow>
     (case str_lower (dict_get contact2 ''position'' (PStr [])) of
        Inl e \<Rightarrow> Inl e
      | Inr position2 \<Rightarrow>
          Inr (if position1 = [] \<or> position2 = [] then 0
               else (let level1 = get_professional_level position1
                                    senior_keywords mid_keywords junior_keywords;
                         level2 = get_professional_level position2
                                    senior_keywords mid_keywords junior_keywords
                     in if level1 = level2 then 8/10
                        else if \<bar>level1 - level2\<bar> = 1 then 4/10
                        else 0))))"

definition get_recommendation_strength :: "rat \<Rightarrow> string" where
  "get_recommendation_strength score =
     (if score \<ge> 8/10 then ''muy_alta''
      else if score \<ge> 6/10 then ''alta''
      else if score \<ge> 4/10 then ''media''
      else if score \<ge> 2/10 then ''baja''
      else ''muy_baja'')"

subsection \<open>\<^verbatim>\<open>analyze_contact_similarity\<close>\<close>

text \<open>
  The dictionary the analysis returns. An entry of \<^verbatim>\<open>factors\<close> is the text
  \<^verbatim>\<open>f"Industria similar ({industry_score:.2f})"\<close>; the model keeps its label and the
  score that the text prints with two decimals.
\<close>

record analysis =
  similarity_score :: rat
  factors :: "(string \<times> rat) list"
  recommendation_strength :: string

definition factor_entry :: "string \<Rightarrow> rat \<Rightarrow> (string \<times> rat) list" where
  "factor_entry label score = (if score > 0 then [(label, score)] else [])"

text \<open>
  \<^verbatim>\<open>
  def analyze_contact_similarity(self, contact1, contact2):
      similarity_score = 0.0
      factors = []
      industry_score = self._calculate_industry_similarity(contact1, contact2)
      similarity_score += industry_score * 0.3
      if industry_score > 0:
          factors.append(f"Industria similar ({industry_score:.2f})")
      ... location (0.25), company (0.2), social (0.15), level (0.1) alike ...
      return {
          'similarity_score': min(similarity_score, 1.0),
          'factors': factors,
          'recommendation_strength': self._get_recommendation_strength(similarity_score)
      }
  \<close>
  The five factors are computed in this order, so the first that raises decides the
  exception.
\<close>

definition analyze_contact_similarity_in ::
  "(string option list \<Rightarrow> string option list \<Rightarrow> string option list)
     \<Rightarrow> ai_engine \<Rightarrow> contact_dict \<Rightarrow> contact_dict \<Rightarrow> pyerror + analysis" where
  "analyze_contact_similarity_in iter self contact1 contact2 =
     (case calculate_industry_similarity self contact1 contact2 of
        Inl e \<Rightarrow> Inl e
      | Inr industry_score \<Rightarrow>
     (case calculate_location_similarity contact1 contact2 of
        Inl e \<Rightarrow> Inl e
      | Inr location_score \<Rightarrow>
     (case calculate_company_similarity contact1 contact2 of
        Inl e \<Rightarrow> Inl e
      | Inr company_score \<Rightarrow>
     (case calculate_social_similarity_in iter self contact1 contact2 of
        Inl e \<Rightarrow> Inl e
      | Inr social_score \<Rightarrow>
     (case calculate_professional_level_similarity contact1 contact2 of
        Inl e \<Rightarrow> Inl e
      | Inr level_score \<Rightarrow>
          (let score = 0 + industry_score * (3/10) + location_score * (25/100)
                         + company_score * (2/10) + social_score * (15/100)
                         + level_score * (1/10)
           in Inr \<lparr> similarity_score = min score 1,
                    factors = factor_entry ''Industria similar'' industry_score
                            @ factor_entry (''Ubicaci'' @ [CHR 0xF3] @ ''n similar'') location_score
                            @ factor_entry ''Empresa relacionada'' company_score
                            @ factor_entry ''Presencia social similar'' social_score
                            @ factor_entry ''Nivel profesional similar'' level_score,
                    recommendation_strength = get_recommendation_strength score \<rparr>))))))"

definition analyze_contact_similarity ::
  "ai_engine \<Rightarrow> contact_dict \<Rightarrow> contact_dict \<Rightarrow> pyerror + analysis" where
  "analyze_contact_similarity = analyze_contact_similarity_in union_order"

text \<open>What a call returned, \<open>None\<close> when it raised.\<close>

definition returned :: "pyerror + 'a \<Rightarrow> 'a option" where
  "returned r = (case r of Inl e \<Rightarrow> None | Inr v \<Rightarrow> Some v)"

section \<open>\<^verbatim>\<open>models/contact.py\<close>: contacts, profiles, connections\<close>

text \<open>
  The rows of the tables, with the columns the modelled code reads. A nullable text
  column is a \<^typ>\<open>string option\<close>, \<open>None\<close> for SQL \<^verbatim>\<open>NULL\<close>: of a contact only
  \<^verbatim>\<open>user_id\<close> and \<^verbatim>\<open>name\<close> are \<^verbatim>\<open>nullable=False\<close>, and \<^verbatim>\<open>create_contact\<close> stores
  \<^verbatim>\<open>data.get('company')\<close> and its like, which is \<^verbatim>\<open>None\<close> for a field the request left
  out.
\<close>

record social_profile =
  sp_platform :: string
  sp_username :: string

record contact =
  c_id :: nat
  c_user_id :: nat
  c_name :: string
  c_email :: "string option"
  c_phone :: "string option"
  c_company :: "string option"
  c_position :: "string option"
  c_industry :: "string option"
  c_location :: "string option"
  c_notes :: "string option"
  c_social_profiles :: "social_profile list"

record connection =
  k_user_id :: nat
  k_contact_id :: nat
  k_suggested_contact_id :: nat
  k_connection_type :: string
  k_confidence_score :: rat
  k_status :: string

definition opt_val :: "string option \<Rightarrow> pyval" where
  "opt_val v = (case v of None \<Rightarrow> PNone | Some s \<Rightarrow> PStr s)"

text \<open>\<^verbatim>\<open>Contact.to_dict()\<close>, without the two time stamps (no modelled code reads
  them). Every key is present; a \<^verbatim>\<open>NULL\<close> column gives the value \<^verbatim>\<open>None\<close>.\<close>

definition to_dict :: "contact \<Rightarrow> contact_dict" where
  "to_dict c =
     [''id'' \<mapsto> PInt (int (c_id c)),
      ''user_id'' \<mapsto> PInt (int (c_user_id c)),
      ''name'' \<mapsto> PStr (c_name c),
      ''email'' \<mapsto> opt_val (c_email c),
      ''phone'' \<mapsto> opt_val (c_phone c),
      ''company'' \<mapsto> opt_val (c_company c),
      ''position'' \<mapsto> opt_val (c_position c),
      ''industry'' \<mapsto> opt_val (c_industry c),
      ''location'' \<mapsto> opt_val (c_location c),
      ''notes'' \<mapsto> opt_val (c_notes c),
      ''social_profiles'' \<mapsto>
         PProfiles (map (\<lambda>p. ProfileDict (Some (sp_platform p))) (c_social_profiles c))]"

section \<open>\<^verbatim>\<open>routes/analytics.py\<close>: network density\<close>

text \<open>The truth value of a nullable text column: \<^verbatim>\<open>None\<close> and the empty string are
  false.\<close>

definition col_truthy :: "string option \<Rightarrow> bool" where
  "col_truthy v = (case v of None \<Rightarrow> False | Some s \<Rightarrow> s \<noteq> [])"

text \<open>The condition of the inner \<^verbatim>\<open>if\<close> of \<^verbatim>\<open>calculate_network_density\<close>.\<close>

definition potential_connection :: "contact \<Rightarrow> contact \<Rightarrow> bool" where
  "potential_connection contact1 contact2 =
     ((col_truthy (c_industry contact1) \<and> col_truthy (c_industry contact2)
         \<and> c_industry contact1 = c_industry contact2)
      \<or> (col_truthy (c_location contact1) \<and> col_truthy (c_location contact2)
         \<and> c_location contact1 = c_location contact2)
      \<or> (col_truthy (c_company contact1) \<and> col_truthy (c_company contact2)
         \<and> c_company contact1 = c_company contact2))"

text \<open>
  \<^verbatim>\<open>
  def calculate_network_density(contacts):
      if len(contacts) < 2:
          return 0.0
      connections = 0
      total_possible = len(contacts) * (len(contacts) - 1) / 2
      for i, contact1 in enumerate(contacts):
          for contact2 in contacts[i+1:]:
              if (contact1.industry and contact2.industry and ...) or ... :
                  connections += 1
      return connections / total_possible if total_possible > 0 else 0.0
  \<close>
  The two loops are two recursions; \<open>connections\<close> is the counter.
\<close>

fun density_inner :: "contact \<Rightarrow> contact list \<Rightarrow> nat \<Rightarrow> nat" where
  "density_inner contact1 [] connections = connections"
| "density_inner contact1 (contact2 # rest) connections =
     density_inner contact1 rest
       (if potential_connection contact1 contact2 then connections + 1 else connections)"

fun density_outer :: "contact list \<Rightarrow> nat \<Rightarrow> nat" where
  "density_outer [] connections = connections"
| "density_outer (contact1 # rest) connections =
     density_outer rest (density_inner contact1 rest connections)"

definition calculate_network_density :: "contact list \<Rightarrow> rat" where
  "calculate_network_density contacts =
     (if length contacts < 2 then 0
      else (let connections = density_outer contacts 0;
                total_possible = (of_nat (length contacts * (length contacts - 1)) :: rat) / 2
            in if total_possible > 0 then of_nat connections / total_possible else 0))"

text \<open>
  The claim's words. Two columns share a non-empty value; two contacts are linked when
  they share a non-empty industry, a non-empty location or a non-empty company; the
  unordered pairs of contacts are the pairs of positions \<open>i < j\<close> of the list.
\<close>

definition shares :: "string option \<Rightarrow> string option \<Rightarrow> bool" where
  "shares a b = (case (a, b) of (Some s, Some t) \<Rightarrow> s \<noteq> [] \<and> s = t | _ \<Rightarrow> False)"

definition linked :: "contact \<Rightarrow> contact \<Rightarrow> bool" where
  "linked c1 c2 =
     (shares (c_industry c1) (c_industry c2)
      \<or> shares (c_location c1) (c_location c2)
      \<or> shares (c_company c1) (c_company c2))"

definition linked_pairs :: "contact list \<Rightarrow> (nat \<times> nat) set" where
  "linked_pairs contacts =
     {(i, j). i < j \<and> j < length contacts \<and> linked (contacts ! i) (contacts ! j)}"

section \<open>\<^verbatim>\<open>routes/connections.py\<close>: generating suggestions\<close>

text \<open>The two tables the handler reads and writes.\<close>

record database =
  db_contacts :: "contact list"
  db_connections :: "connection list"

text \<open>
  \<^verbatim>\<open>determine_connection_type_from_analysis\<close> tests the factor texts for a word;
  the word can only stand in the label, the rest of a text being a bracketed number.
\<close>

definition has_factor :: "string \<Rightarrow> analysis \<Rightarrow> bool" where
  "has_factor word a = list_ex (\<lambda>(label, score). contains label word) (factors a)"

definition determine_connection_type_from_analysis :: "analysis \<Rightarrow> string" where
  "determine_connection_type_from_analysis a =
     (if has_factor ''Industria'' a then
        (if has_factor (''Ubicaci'' @ [CHR 0xF3] @ ''n'') a then ''industry_location_match''
         else ''industry_match'')
      else if has_factor (''Ubicaci'' @ [CHR 0xF3] @ ''n'') a then ''location_match''
      else if has_factor ''Empresa'' a then ''company_match''
      else if has_factor ''social'' a then ''social_match''
      else ''ai_recommended'')"

text \<open>\<^verbatim>\<open>Connection.query.filter_by(user_id=..., contact_id=...,
  suggested_contact_id=...).first()\<close> is not \<^verbatim>\<open>None\<close>.\<close>

definition existing :: "database \<Rightarrow> nat \<Rightarrow> nat \<Rightarrow> nat \<Rightarrow> bool" where
  "existing db user_id cid sid =
     list_ex (\<lambda>k. k_user_id k = user_id \<and> k_contact_id k = cid \<and> k_suggested_contact_id k = sid)
       (db_connections db)"

text \<open>
  The loops of \<^verbatim>\<open>generate_connections\<close>; the module's engine is
  \<^verbatim>\<open>ai_engine = AIEngine()\<close>, and \<^verbatim>\<open>contacts_data[i]\<close> is \<^verbatim>\<open>contacts[i].to_dict()\<close>.
  \<^verbatim>\<open>
  for i, contact1 in enumerate(contacts):
      for j, contact2 in enumerate(contacts[i+1:], i+1):
          analysis = ai_engine.analyze_contact_similarity(contacts_data[i], contacts_data[j])
          if analysis['similarity_score'] >= 0.3:
              existing = Connection.query.filter_by(user_id=user_id,
                  contact_id=contact1.id, suggested_contact_id=contact2.id).first()
              if not existing:
                  ...
                  suggestion = Connection(user_id=user_id, contact_id=contact1.id,
                      suggested_contact_id=contact2.id, connection_type=connection_type,
                      confidence_score=analysis['similarity_score'],
                      reasoning=reasoning, status='pending')
                  suggestions.append(suggestion)
  \<close>
  An exception of the analysis leaves both loops. The free text \<^verbatim>\<open>reasoning\<close> is not
  modelled: it is built from the same analysis, cannot raise, and nothing reads it.
\<close>

definition suggestion :: "nat \<Rightarrow> contact \<Rightarrow> contact \<Rightarrow> analysis \<Rightarrow> connection" where
  "suggestion user_id contact1 contact2 a =
     \<lparr> k_user_id = user_id,
       k_contact_id = c_id contact1,
       k_suggested_contact_id = c_id contact2,
       k_connection_type = determine_connection_type_from_analysis a,
       k_confidence_score = similarity_score a,
       k_status = ''pending'' \<rparr>"

fun suggest_inner ::
  "database \<Rightarrow> nat \<Rightarrow> contact \<Rightarrow> contact list \<Rightarrow> connection list \<Rightarrow> pyerror + connection list" where
  "suggest_inner db user_id contact1 [] suggestions = Inr suggestions"
| "suggest_inner db user_id contact1 (contact2 # rest) suggestions =
     (case analyze_contact_similarity new_AIEngine (to_dict contact1) (to_dict contact2) of
        Inl e \<Rightarrow> Inl e
      | Inr a \<Rightarrow>
          suggest_inner db user_id contact1 rest
            (if similarity_score a \<ge> 3/10 \<and> \<not> existing db user_id (c_id contact1) (c_id contact2)
             then suggestions @ [suggestion user_id contact1 contact2 a]
             else suggestions))"

fun suggest_outer ::
  "database \<Rightarrow> nat \<Rightarrow> contact list \<Rightarrow> connection list \<Rightarrow> pyerror + connection list" where
  "suggest_outer db user_id [] suggestions = Inr suggestions"
| "suggest_outer db user_id (contact1 # rest) suggestions =
     (case suggest_inner db user_id contact1 rest suggestions of
        Inl e \<Rightarrow> Inl e
      | Inr suggestions' \<Rightarrow> suggest_outer db user_id rest suggestions')"

text \<open>
  The handler: the status of the response and the database after the request.
  \<open>user_id\<close> is \<^verbatim>\<open>data.get('user_id')\<close>, \<open>None\<close> when the body has none. An exception
  that no handler catches ends the request with status 500 before anything was added
  to the session. The rows the handler writes to the analysis and activity tables after
  the commit are not modelled.
\<close>

definition generate_connections :: "database \<Rightarrow> nat option \<Rightarrow> nat \<times> database" where
  "generate_connections db user_id =
     (case user_id of
        None \<Rightarrow> (400, db)
      | Some uid \<Rightarrow>
          if uid = 0 then (400, db)
          else (let contacts = filter (\<lambda>c. c_user_id c = uid) (db_contacts db)
                in if length contacts < 2 then (400, db)
                   else (case suggest_outer db uid contacts [] of
                           Inl e \<Rightarrow> (500, db)
                         | Inr suggestions \<Rightarrow>
                             (200, db\<lparr>db_connections := db_connections db @ suggestions\<rparr>))))"

section \<open>\<^verbatim>\<open>routes/auth.py\<close>: registration and login\<close>


record user =
  u_username :: string
  u_email :: string
  u_password_hash :: "string option"










section \<open>The status codes of the route handlers\<close>

text \<open>
  The other handlers are modelled by the status of their response only. What a
  handler observes of the request and of the database is a field of \<open>http_env\<close>:
  \<^item> \<open>h_request\<close>: content type, JSON body and address;
  \<^item> \<open>h_user_id\<close>: \<^verbatim>\<open>request.args.get('user_id', type=int)\<close>, \<open>None\<close> for a missing or
    malformed argument;
  \<^item> \<open>h_body_user_id\<close>: \<^verbatim>\<open>data.get('user_id')\<close> of a JSON body, as the id the contact
    query then selects by, \<open>None\<close> for a missing or falsy value;
  \<^item> \<open>h_row_found\<close>: whether \<^verbatim>\<open>get_or_404\<close> finds the row the URL names;
  \<^item> \<open>h_has_contacts\<close>: whether the user's contact list is non-empty;
  \<^item> \<open>h_credentials\<close>: what \<^verbatim>\<open>require_auth\<close> finds in the \<^verbatim>\<open>Authorization\<close> header;
  \<^item> \<open>h_email_taken\<close>: whether another user has the e-mail of a profile update;
  \<^item> \<open>h_raises\<close>: whether a library call of the handler (a query, a commit) raises an
    exception that the handler does not catch, which ends the request with status 500;
  \<^item> \<open>h_static_folder\<close>, \<open>h_path_exists\<close>, \<open>h_index_exists\<close>: the static files.
\<close>

datatype credentials =
    NoToken
  | BadHeader
  | InvalidToken
  | UnknownUser
  | Authenticated user






subsection \<open>\<^verbatim>\<open>routes/contacts.py\<close>\<close>













subsection \<open>\<^verbatim>\<open>routes/connections.py\<close>\<close>







subsection \<open>\<^verbatim>\<open>routes/analytics.py\<close>\<close>





subsection \<open>\<^verbatim>\<open>routes/auth.py\<close>: the handlers behind \<^verbatim>\<open>require_auth\<close>\<close>








subsection \<open>\<^verbatim>\<open>src/main.py\<close>: static files, health check, error handlers\<close>






subsection \<open>\<^verbatim>\<open>backend/main.py\<close>: the second entry point\<close>




subsection \<open>The URL map\<close>





section \<open>Notions used in the statements and proofs\<close>





text \<open>The number of pairs the two density loops count.\<close>

fun pair_count :: "contact list \<Rightarrow> nat" where
  "pair_count [] = 0"
| "pair_count (c # cs) = length (filter (potential_connection c) cs) + pair_count cs"

text \<open>A contact has text in the four columns that the engine lowers.\<close>

definition complete :: "contact \<Rightarrow> bool" where
  "complete c =
     (c_industry c \<noteq> None \<and> c_location c \<noteq> None \<and> c_company c \<noteq> None \<and> c_position c \<noteq> None)"

text \<open>The pairs of a list in the order in which two nested loops visit them, and
  what \<^verbatim>\<open>generate_connections\<close> appends for one pair whose analysis returns.\<close>

fun pairs :: "'a list \<Rightarrow> ('a \<times> 'a) list" where
  "pairs [] = []"
| "pairs (x # xs) = map (Pair x) xs @ pairs xs"

definition suggested :: "database \<Rightarrow> nat \<Rightarrow> contact \<times> contact \<Rightarrow> connection list" where
  "suggested db user_id pair =
     (case analyze_contact_similarity new_AIEngine (to_dict (fst pair)) (to_dict (snd pair)) of
        Inl e \<Rightarrow> []
      | Inr a \<Rightarrow>
          if similarity_score a \<ge> 3/10 \<and> \<not> existing db user_id (c_id (fst pair)) (c_id (snd pair))
          then [suggestion user_id (fst pair) (snd pair) a]
          else [])"

subsection \<open>Example data\<close>

text \<open>Three contacts of user 1. Eva's contact was created without an industry and a
  position, as \<^verbatim>\<open>POST /api/contacts\<close> allows.\<close>

definition ex_ana :: contact where
  "ex_ana = \<lparr> c_id = 1, c_user_id = 1, c_name = ''Ana'', c_email = None, c_phone = None,
      c_company = Some ''Acme'', c_position = Some ''CTO'', c_industry = Some ''Finanzas'',
      c_location = Some ''Madrid'', c_notes = None,
      c_social_profiles = [\<lparr>sp_platform = ''linkedin'', sp_username = ''ana''\<rparr>,
                           \<lparr>sp_platform = ''tiktok'', sp_username = ''ana''\<rparr>] \<rparr>"

definition ex_luis :: contact where
  "ex_luis = \<lparr> c_id = 2, c_user_id = 1, c_name = ''Luis'', c_email = None, c_phone = None,
      c_company = Some ''Acme'', c_position = Some ''CFO'', c_industry = Some ''Finanzas'',
      c_location = Some ''Madrid'', c_notes = None,
      c_social_profiles = [\<lparr>sp_platform = ''linkedin'', sp_username = ''luis''\<rparr>] \<rparr>"

definition ex_eva :: contact where
  "ex_eva = \<lparr> c_id = 3, c_user_id = 1, c_name = ''Eva'', c_email = None, c_phone = None,
      c_company = Some ''Acme'', c_position = None, c_industry = None,
      c_location = Some ''Madrid'', c_notes = None, c_social_profiles = [] \<rparr>"

definition ex_db :: database where
  "ex_db = \<lparr> db_contacts = [ex_ana, ex_luis, ex_eva], db_connections = [] \<rparr>"







chapter \<open>Properties\<close>

section \<open>Sanitising input\<close>

lemma replace_char_nil: "replace_char c [] s = filter (\<lambda>x. x \<noteq> c) s"
  by (induction s) (simp_all add: replace_char_def)

lemma foldl_filter_chars:
  "foldl (\<lambda>d char. filter (\<lambda>x. x \<noteq> char) d) s cs = filter (\<lambda>x. x \<notin> set cs) s"
proof (induction cs arbitrary: s)
  case Nil
  show ?case by simp
next
  case (Cons c cs)
  show ?case by (simp add: Cons.IH conj_commute)
qed

lemma sanitize_str_filter:
  "sanitize_str s = take 1000 (filter (\<lambda>x. x \<notin> set dangerous_chars) s)"
  by (simp add: sanitize_str_def replace_char_nil foldl_filter_chars)

lemma sanitize_str_clean: "set (sanitize_str s) \<inter> set dangerous_chars = {}"
proof -
  have "set (sanitize_str s) \<subseteq> set (filter (\<lambda>x. x \<notin> set dangerous_chars) s)"
    unfolding sanitize_str_filter by (rule set_take_subset)
  then show ?thesis by auto
qed

lemma sanitize_str_length: "length (sanitize_str s) \<le> 1000"
  by (simp add: sanitize_str_filter)

lemma filter_take_filter: "filter P (take n (filter P xs)) = take n (filter P xs)"
proof -
  have "\<forall>x \<in> set (take n (filter P xs)). P x"
    using set_take_subset[of n "filter P xs"] by auto
  then show ?thesis by (rule filter_True)
qed

lemma sanitize_str_idem: "sanitize_str (sanitize_str s) = sanitize_str s"
  by (simp add: sanitize_str_filter filter_take_filter)

text \<open>
  Claim C10. For a string, the result of \<^verbatim>\<open>sanitize_input\<close> is a string that holds none
  of the characters \<^verbatim>\<open><\<close>, \<^verbatim>\<open>>\<close>, the double quote, the single quote, \<^verbatim>\<open>&\<close> and NUL,
  and has at most 1000 characters; sanitising is idempotent on every value; a value that
  is not a string is returned unchanged.
\<close>

theorem sanitize_input_clean_idempotent:
  "(\<exists>t. sanitize_input (JStr s) = JStr t
        \<and> CHR ''<'' \<notin> set t \<and> CHR ''>'' \<notin> set t \<and> CHR 0x22 \<notin> set t \<and> CHR 0x27 \<notin> set t
        \<and> CHR ''&'' \<notin> set t \<and> CHR 0x00 \<notin> set t \<and> length t \<le> 1000)
   \<and> sanitize_input (sanitize_input v) = sanitize_input v
   \<and> ((\<forall>s. v \<noteq> JStr s) \<longrightarrow> sanitize_input v = v)"
proof -
  have clean: "c \<in> set dangerous_chars \<Longrightarrow> c \<notin> set (sanitize_str s)" for c
    using sanitize_str_clean[of s] by auto
  have 1: "CHR ''<'' \<notin> set (sanitize_str s)" "CHR ''>'' \<notin> set (sanitize_str s)"
    "CHR 0x22 \<notin> set (sanitize_str s)" "CHR 0x27 \<notin> set (sanitize_str s)"
    "CHR ''&'' \<notin> set (sanitize_str s)" "CHR 0x00 \<notin> set (sanitize_str s)"
    by (rule clean, simp add: dangerous_chars_def)+
  have 2: "sanitize_input (sanitize_input v) = sanitize_input v"
    by (cases v) (simp_all add: sanitize_str_idem)
  have 3: "(\<forall>s. v \<noteq> JStr s) \<longrightarrow> sanitize_input v = v"
    by (cases v) simp_all
  show ?thesis using 1 2 3 by (simp add: sanitize_str_length)
qed

theorem sanitize_input_witness:
  "(\<forall>s. JNum 7 \<noteq> JStr s) \<and> sanitize_input (JNum 7) = JNum 7
   \<and> sanitize_input (JStr ''<b>Tom & Co</b>'') = JStr ''bTom  Co/b''
   \<and> sanitize_input (JStr ''bTom  Co/b'') = JStr ''bTom  Co/b''"
  using sanitize_input_clean_idempotent[of "''<b>Tom & Co</b>''" "JNum 7"]
  by (simp add: sanitize_str_def dangerous_chars_def replace_char_def)

section \<open>Password hashing\<close>







section \<open>Network density\<close>

lemma density_inner_count:
  "density_inner c rest k = k + length (filter (potential_connection c) rest)"
  by (induction rest arbitrary: k) simp_all

lemma density_outer_count: "density_outer cs k = k + pair_count cs"
  by (induction cs arbitrary: k) (simp_all add: density_inner_count)

text \<open>The condition of the loop is the claim's relation.\<close>

lemma potential_connection_linked: "potential_connection c1 c2 = linked c1 c2"
  by (auto simp: potential_connection_def linked_def shares_def col_truthy_def
      split: option.splits)

lemma linked_pairs_Cons:
  "linked_pairs (c # cs) =
     (\<lambda>j. (0, Suc j)) ` {j. j < length cs \<and> linked c (cs ! j)}
     \<union> (\<lambda>(i, j). (Suc i, Suc j)) ` linked_pairs cs"
proof (rule set_eqI)
  fix p :: "nat \<times> nat"
  obtain i j where p: "p = (i, j)" by (cases p)
  show "p \<in> linked_pairs (c # cs) \<longleftrightarrow>
        p \<in> (\<lambda>j. (0, Suc j)) ` {j. j < length cs \<and> linked c (cs ! j)}
            \<union> (\<lambda>(i, j). (Suc i, Suc j)) ` linked_pairs cs"
  proof (cases i)
    case 0
    then show ?thesis
      unfolding p linked_pairs_def by (cases j) (auto simp: image_iff)
  next
    case (Suc i')
    then show ?thesis
      unfolding p linked_pairs_def by (cases j) (auto simp: image_iff)
  qed
qed

lemma finite_linked_pairs: "finite (linked_pairs cs)"
proof -
  have "linked_pairs cs \<subseteq> {..<length cs} \<times> {..<length cs}"
    by (auto simp: linked_pairs_def)
  then show ?thesis by (rule finite_subset) simp
qed

lemma card_linked_pairs: "card (linked_pairs cs) = pair_count cs"
proof (induction cs)
  case Nil
  show ?case by (simp add: linked_pairs_def)
next
  case (Cons c cs)
  let ?A = "(\<lambda>j. (0, Suc j)) ` {j. j < length cs \<and> linked c (cs ! j)}"
  let ?B = "(\<lambda>(i, j). (Suc i, Suc j)) ` linked_pairs cs"
  have "potential_connection c = linked c"
    by (rule ext) (rule potential_connection_linked)
  then have cA: "card ?A = length (filter (potential_connection c) cs)"
    by (simp add: card_image inj_on_def length_filter_conv_card)
  have cB: "card ?B = pair_count cs"
    using Cons.IH by (simp add: card_image inj_on_def split_beta prod_eq_iff)
  have disj: "?A \<inter> ?B = {}" by auto
  have fin: "finite ?A" "finite ?B" by (simp_all add: finite_linked_pairs)
  show ?case
    unfolding linked_pairs_Cons using cA cB by (simp add: card_Un_disjoint[OF fin disj])
qed

lemma pair_count_bound: "2 * pair_count cs \<le> length cs * (length cs - 1)"
proof (induction cs)
  case Nil
  show ?case by simp
next
  case (Cons c cs)
  define f where "f = length (filter (potential_connection c) cs)"
  define m where "m = length cs * (length cs - 1)"
  have a: "f \<le> length cs" by (simp add: f_def)
  have b: "length (c # cs) * (length (c # cs) - 1) = 2 * length cs + m"
    by (cases "length cs") (simp_all add: m_def)
  have "2 * pair_count cs \<le> m" using Cons.IH by (simp add: m_def)
  then have "2 * (f + pair_count cs) \<le> 2 * length cs + m" using a by arith
  then show ?case by (simp only: b pair_count.simps f_def)
qed

text \<open>
  Claim C5. \<^verbatim>\<open>calculate_network_density\<close> returns 0 for fewer than two contacts;
  otherwise it returns the number of unordered pairs of contacts that share a non-empty
  industry, a non-empty location or a non-empty company (\<open>linked_pairs\<close>), divided by
  \<open>n * (n - 1) / 2\<close> for \<open>n\<close> contacts. The result lies between 0 and 1.
\<close>

theorem network_density_spec:
  "(length contacts < 2 \<longrightarrow> calculate_network_density contacts = 0)
   \<and> (2 \<le> length contacts \<longrightarrow>
        calculate_network_density contacts
          = of_nat (card (linked_pairs contacts))
              / (of_nat (length contacts) * (of_nat (length contacts) - 1) / 2))
   \<and> 0 \<le> calculate_network_density contacts
   \<and> calculate_network_density contacts \<le> 1"
proof -
  let ?n = "length contacts"
  let ?k = "pair_count contacts"
  let ?t = "(of_nat (?n * (?n - 1)) :: rat) / 2"
  have conn: "density_outer contacts 0 = ?k" by (simp add: density_outer_count)
  have tp: "?t = of_nat ?n * (of_nat ?n - 1) / 2" if "2 \<le> ?n"
    using that by simp
  have pos: "0 < ?t" if "2 \<le> ?n"
  proof -
    have "0 < ?n * (?n - 1)" using that by (cases contacts) auto
    then have "(0::rat) < of_nat (?n * (?n - 1))" by (simp only: of_nat_0_less_iff)
    then show ?thesis by (rule divide_pos_pos) simp
  qed
  have le: "(of_nat ?k :: rat) \<le> ?t"
  proof -
    have "(of_nat (2 * ?k) :: rat) \<le> of_nat (?n * (?n - 1))"
      using pair_count_bound[of contacts] by (simp only: of_nat_le_iff)
    then show ?thesis by simp
  qed
  have small: "calculate_network_density contacts = 0" if "?n < 2"
    using that by (simp add: calculate_network_density_def)
  have big: "calculate_network_density contacts = of_nat ?k / ?t" if "2 \<le> ?n"
    using that pos[OF that] by (simp add: calculate_network_density_def Let_def conn)
  have range: "0 \<le> calculate_network_density contacts \<and> calculate_network_density contacts \<le> 1"
  proof (cases "?n < 2")
    case True
    then show ?thesis by (simp add: small)
  next
    case False
    then have n2: "2 \<le> ?n" by simp
    have "0 \<le> of_nat ?k / ?t" using pos[OF n2] by simp
    moreover have "of_nat ?k / ?t \<le> 1" using le pos[OF n2] by (simp only: divide_le_eq_1_pos)
    ultimately show ?thesis by (simp only: big[OF n2])
  qed
  show ?thesis using small big tp range by (simp add: card_linked_pairs)
qed


theorem network_density_witness:
  "2 \<le> length [ex_ana, ex_luis, ex_eva]
   \<and> calculate_network_density [ex_ana, ex_luis, ex_eva] = 1
   \<and> card (linked_pairs [ex_ana, ex_luis, ex_eva]) = 3
   \<and> length [ex_ana] < 2 \<and> calculate_network_density [ex_ana] = 0"
proof -
  have d: "calculate_network_density [ex_ana, ex_luis, ex_eva] = 1"
    by (simp add: calculate_network_density_def potential_connection_def col_truthy_def
        ex_ana_def ex_luis_def ex_eva_def)
  have "rat_of_nat (card (linked_pairs [ex_ana, ex_luis, ex_eva])) = 3"
    using network_density_spec[of "[ex_ana, ex_luis, ex_eva]"] d by simp
  then have c: "card (linked_pairs [ex_ana, ex_luis, ex_eva]) = 3"
    by (simp only: of_nat_eq_iff[symmetric, where 'a = rat] of_nat_numeral)
  show ?thesis
    using network_density_spec[of "[ex_ana]"] d c by simp
qed

section \<open>The similarity engine\<close>

subsection \<open>The order of iteration does not matter\<close>

lemma social_loop_sums:
  "social_loop self C ps =
     (sum_list (map (platform_weight self) ps),
      sum_list (map (platform_weight self) (filter (\<lambda>p. p \<in> C) ps)))"
proof -
  have "foldl (\<lambda>(total_weight, common_weight) p.
              let weight = platform_weight self p
              in (total_weight + weight,
                  if p \<in> C then common_weight + weight else common_weight))
           (t, c) ps
        = (t + sum_list (map (platform_weight self) ps),
           c + sum_list (map (platform_weight self) (filter (\<lambda>p. p \<in> C) ps)))" for t c
    by (induction ps arbitrary: t c) (simp_all add: Let_def add.assoc)
  then show ?thesis by (simp add: social_loop_def)
qed






subsection \<open>Symmetry\<close>









subsection \<open>The range of the factors and the weighted sum\<close>

lemma weight_pos: "0 < platform_weight new_AIEngine p"
  by (cases p) (auto simp: platform_weight_def new_AIEngine_def)

lemma social_loop_bounds:
  assumes "social_loop new_AIEngine C ps = (t, c)"
  shows "0 \<le> c \<and> c \<le> t"
proof -
  have 1: "0 \<le> sum_list (map (platform_weight new_AIEngine) (filter (\<lambda>p. p \<in> C) ps))"
    by (rule sum_list_nonneg) (use weight_pos in \<open>auto simp: less_imp_le\<close>)
  have 2: "sum_list (map (platform_weight new_AIEngine) (filter (\<lambda>p. p \<in> C) ps))
        \<le> sum_list (map (platform_weight new_AIEngine) ps)"
    by (induction ps) (use weight_pos in \<open>auto simp: less_imp_le intro: add_increasing\<close>)
  show ?thesis using assms 1 2 by (simp add: social_loop_sums)
qed

lemma industry_bounds:
  "calculate_industry_similarity self c1 c2 = Inr v \<Longrightarrow> 0 \<le> v \<and> v \<le> 1"
proof -
  have frac: "(of_nat (card (A \<inter> B)) :: rat) / of_nat (max (card A) (card B)) \<le> 1"
    if "finite A" for A B :: "string set"
  proof -
    have "card (A \<inter> B) \<le> card A" using that by (simp add: card_mono)
    then have "card (A \<inter> B) \<le> max (card A) (card B)" by simp
    then have "(of_nat (card (A \<inter> B)) :: rat) \<le> of_nat (max (card A) (card B))"
      by (simp only: of_nat_le_iff)
    then show ?thesis by (simp add: divide_le_eq_1, arith)
  qed
  assume "calculate_industry_similarity self c1 c2 = Inr v"
  then show ?thesis
    unfolding calculate_industry_similarity_def
    by (auto split: sum.splits if_splits simp: Let_def frac)
qed

lemma location_bounds:
  "calculate_location_similarity c1 c2 = Inr v \<Longrightarrow> 0 \<le> v \<and> v \<le> 1"
  unfolding calculate_location_similarity_def
  by (auto split: sum.splits if_splits simp: Let_def)

lemma company_bounds:
  "calculate_company_similarity c1 c2 = Inr v \<Longrightarrow> 0 \<le> v \<and> v \<le> 1"
  unfolding calculate_company_similarity_def
  by (auto split: sum.splits if_splits)

lemma level_bounds:
  "calculate_professional_level_similarity c1 c2 = Inr v \<Longrightarrow> 0 \<le> v \<and> v \<le> 1"
  unfolding calculate_professional_level_similarity_def
  by (auto split: sum.splits if_splits simp: Let_def)

lemma social_bounds:
  "calculate_social_similarity new_AIEngine c1 c2 = Inr v \<Longrightarrow> 0 \<le> v \<and> v \<le> 1"
proof -
  have r: "0 \<le> c / t \<and> c / t \<le> 1" if "social_loop new_AIEngine C ps = (t, c)" "0 < t" for C ps t c
    using social_loop_bounds[OF that(1)] that(2) by (simp add: divide_le_eq_1)
  assume "calculate_social_similarity new_AIEngine c1 c2 = Inr v"
  then show ?thesis
    unfolding calculate_social_similarity_def calculate_social_similarity_in_def
    by (auto split: sum.splits if_splits prod.splits simp: Let_def dest: r)
qed

text \<open>When the analysis returns, all five factors returned, and the score is their
  weighted sum, capped at 1.\<close>

lemma analyze_score_formula:
  assumes "analyze_contact_similarity self c1 c2 = Inr a"
  shows "\<exists>i l c s p.
           calculate_industry_similarity self c1 c2 = Inr i
           \<and> calculate_location_similarity c1 c2 = Inr l
           \<and> calculate_company_similarity c1 c2 = Inr c
           \<and> calculate_social_similarity self c1 c2 = Inr s
           \<and> calculate_professional_level_similarity c1 c2 = Inr p
           \<and> similarity_score a
               = min (i * (3/10) + l * (25/100) + c * (2/10) + s * (15/100) + p * (1/10)) 1
           \<and> recommendation_strength a
               = get_recommendation_strength
                   (i * (3/10) + l * (25/100) + c * (2/10) + s * (15/100) + p * (1/10))"
  using assms
  unfolding analyze_contact_similarity_def analyze_contact_similarity_in_def
    calculate_social_similarity_def
  by (auto split: sum.splits simp: Let_def)

text \<open>With the engine that \<^verbatim>\<open>AIEngine()\<close> builds, a score that is returned lies between
  0 and 1, and the cap at 1 changes nothing: the weights add up to 1.\<close>

lemma analyze_score_bounds:
  assumes "analyze_contact_similarity new_AIEngine c1 c2 = Inr a"
  shows "0 \<le> similarity_score a \<and> similarity_score a \<le> 1
         \<and> (\<exists>i l c s p.
               calculate_industry_similarity new_AIEngine c1 c2 = Inr i
               \<and> calculate_location_similarity c1 c2 = Inr l
               \<and> calculate_company_similarity c1 c2 = Inr c
               \<and> calculate_social_similarity new_AIEngine c1 c2 = Inr s
               \<and> calculate_professional_level_similarity c1 c2 = Inr p
               \<and> similarity_score a
                   = i * (3/10) + l * (25/100) + c * (2/10) + s * (15/100) + p * (1/10))"
proof -
  from analyze_score_formula[OF assms] obtain i l c s p where
    f: "calculate_industry_similarity new_AIEngine c1 c2 = Inr i"
       "calculate_location_similarity c1 c2 = Inr l"
       "calculate_company_similarity c1 c2 = Inr c"
       "calculate_social_similarity new_AIEngine c1 c2 = Inr s"
       "calculate_professional_level_similarity c1 c2 = Inr p"
    and sc: "similarity_score a
               = min (i * (3/10) + l * (25/100) + c * (2/10) + s * (15/100) + p * (1/10)) 1"
    by blast
  have b: "0 \<le> i \<and> i \<le> 1" "0 \<le> l \<and> l \<le> 1" "0 \<le> c \<and> c \<le> 1" "0 \<le> s \<and> s \<le> 1"
    "0 \<le> p \<and> p \<le> 1"
    using f industry_bounds location_bounds company_bounds social_bounds level_bounds by blast+
  have le: "i * (3/10) + l * (25/100) + c * (2/10) + s * (15/100) + p * (1/10) \<le> 1"
    using b by linarith
  have ge: "0 \<le> i * (3/10) + l * (25/100) + c * (2/10) + s * (15/100) + p * (1/10)"
    using b by linarith
  have "similarity_score a = i * (3/10) + l * (25/100) + c * (2/10) + s * (15/100) + p * (1/10)"
    using sc le by (simp add: min_def)
  with f le ge show ?thesis by auto
qed

subsection \<open>Contacts with \<^verbatim>\<open>NULL\<close> columns\<close>

lemma to_dict_lower:
  "str_lower (dict_get (to_dict c) ''industry'' (PStr [])) = (case c_industry c of None \<Rightarrow> Inl AttributeError | Some s \<Rightarrow> Inr (lower s))"
  "str_lower (dict_get (to_dict c) ''location'' (PStr [])) = (case c_location c of None \<Rightarrow> Inl AttributeError | Some s \<Rightarrow> Inr (lower s))"
  "str_lower (dict_get (to_dict c) ''company'' (PStr [])) = (case c_company c of None \<Rightarrow> Inl AttributeError | Some s \<Rightarrow> Inr (lower s))"
  "str_lower (dict_get (to_dict c) ''position'' (PStr [])) = (case c_position c of None \<Rightarrow> Inl AttributeError | Some s \<Rightarrow> Inr (lower s))"
  by (simp_all add: to_dict_def dict_get_def opt_val_def split: option.splits)

lemma to_dict_social:
  "\<exists>v. calculate_social_similarity_in iter self (to_dict c1) (to_dict c2) = Inr v"
  by (simp add: calculate_social_similarity_in_def to_dict_def dict_get_def Let_def)

text \<open>On the dictionaries of two contacts the analysis returns if the industry, the
  location, the company and the position of both are text, and raises
  \<^verbatim>\<open>AttributeError\<close> if one of the eight is \<^verbatim>\<open>NULL\<close>.\<close>

lemma analyze_to_dict_returns:
  assumes "complete c1" "complete c2"
  shows "\<exists>a. analyze_contact_similarity self (to_dict c1) (to_dict c2) = Inr a"
proof -
  from assms obtain i1 l1 k1 p1 i2 l2 k2 p2 where
    "c_industry c1 = Some i1" "c_location c1 = Some l1" "c_company c1 = Some k1" "c_position c1 = Some p1"
    "c_industry c2 = Some i2" "c_location c2 = Some l2" "c_company c2 = Some k2" "c_position c2 = Some p2"
    by (auto simp: complete_def)
  then obtain i l k p where
    "calculate_industry_similarity self (to_dict c1) (to_dict c2) = Inr i"
    "calculate_location_similarity (to_dict c1) (to_dict c2) = Inr l"
    "calculate_company_similarity (to_dict c1) (to_dict c2) = Inr k"
    "calculate_professional_level_similarity (to_dict c1) (to_dict c2) = Inr p"
    by (simp add: calculate_industry_similarity_def calculate_location_similarity_def
        calculate_company_similarity_def calculate_professional_level_similarity_def to_dict_lower)
  moreover obtain s where
    "calculate_social_similarity_in union_order self (to_dict c1) (to_dict c2) = Inr s"
    using to_dict_social by blast
  ultimately show ?thesis
    by (simp add: analyze_contact_similarity_def analyze_contact_similarity_in_def Let_def)
qed

lemma analyze_to_dict_raises:
  assumes "\<not> complete c1 \<or> \<not> complete c2"
  shows "analyze_contact_similarity self (to_dict c1) (to_dict c2) = Inl AttributeError"
proof -
  obtain s where s:
    "calculate_social_similarity_in union_order self (to_dict c1) (to_dict c2) = Inr s"
    using to_dict_social by blast
  have e: "r = Inl AttributeError \<or> (\<exists>v. r = Inr v)"
    if "r = calculate_industry_similarity self (to_dict c1) (to_dict c2)
        \<or> r = calculate_location_similarity (to_dict c1) (to_dict c2)
        \<or> r = calculate_company_similarity (to_dict c1) (to_dict c2)
        \<or> r = calculate_professional_level_similarity (to_dict c1) (to_dict c2)" for r
    using that
    by (auto simp: calculate_industry_similarity_def calculate_location_similarity_def
        calculate_company_similarity_def calculate_professional_level_similarity_def to_dict_lower
        split: option.splits)
  have "calculate_industry_similarity self (to_dict c1) (to_dict c2) = Inl AttributeError
      \<or> calculate_location_similarity (to_dict c1) (to_dict c2) = Inl AttributeError
      \<or> calculate_company_similarity (to_dict c1) (to_dict c2) = Inl AttributeError
      \<or> calculate_professional_level_similarity (to_dict c1) (to_dict c2) = Inl AttributeError"
    using assms
    by (auto simp: complete_def calculate_industry_similarity_def calculate_location_similarity_def
        calculate_company_similarity_def calculate_professional_level_similarity_def to_dict_lower
        split: option.splits)
  then show ?thesis
    using s e[of "calculate_industry_similarity self (to_dict c1) (to_dict c2)"]
      e[of "calculate_location_similarity (to_dict c1) (to_dict c2)"]
      e[of "calculate_company_similarity (to_dict c1) (to_dict c2)"]
      e[of "calculate_professional_level_similarity (to_dict c1) (to_dict c2)"]
    by (auto simp: analyze_contact_similarity_def analyze_contact_similarity_in_def Let_def)
qed

text \<open>
  Claim C1. The claim says that for every pair of contact records
  \<^verbatim>\<open>analyze_contact_similarity\<close> returns the capped weighted sum of the five factors. For
  the record of a contact without an industry it returns nothing: Eva's dictionary holds
  \<^verbatim>\<open>'industry': None\<close>, the default of \<^verbatim>\<open>get('industry', '')\<close> applies to a missing key
  only, and \<^verbatim>\<open>None.lower()\<close> raises. (Where the call returns, the score is the claimed
  sum: \<open>analyze_score_formula\<close>.)
\<close>

theorem analyze_raises_on_null_industry:
  "analyze_contact_similarity new_AIEngine (to_dict ex_ana) (to_dict ex_eva) = Inl AttributeError
   \<and> to_dict ex_eva ''industry'' = Some PNone"
  by (simp add: analyze_contact_similarity_def analyze_contact_similarity_in_def
      calculate_industry_similarity_def to_dict_def dict_get_def opt_val_def
      ex_ana_def ex_eva_def)

text \<open>
  Claim C2. The claim says that for every pair of contact records each of the five
  factor functions returns a value between 0 and 1. Four of the five lower a text field
  and raise on the record of a contact whose field is \<^verbatim>\<open>NULL\<close>: for Luis and Eva the
  industry factor and the professional level factor return no value. (The values that
  are returned lie between 0 and 1, and the cap is never active: \<open>industry_bounds\<close> to
  \<open>social_bounds\<close>, \<open>analyze_score_bounds\<close>.)
\<close>

theorem factors_raise_on_null_fields:
  "calculate_industry_similarity new_AIEngine (to_dict ex_luis) (to_dict ex_eva) = Inl AttributeError
   \<and> calculate_professional_level_similarity (to_dict ex_luis) (to_dict ex_eva) = Inl AttributeError"
  by (simp add: calculate_industry_similarity_def calculate_professional_level_similarity_def
      to_dict_def dict_get_def opt_val_def ex_luis_def ex_eva_def)

section \<open>Generating suggestions\<close>

lemma suggest_inner_complete:
  assumes "complete c1" "\<forall>c \<in> set cs. complete c"
  shows "suggest_inner db uid c1 cs acc
           = Inr (acc @ concat (map (\<lambda>c2. suggested db uid (c1, c2)) cs))"
  using assms(2)
proof (induction cs arbitrary: acc)
  case Nil
  show ?case by simp
next
  case (Cons c2 cs)
  then have "complete c2" by simp
  with assms(1) obtain a where
    a: "analyze_contact_similarity new_AIEngine (to_dict c1) (to_dict c2) = Inr a"
    using analyze_to_dict_returns by blast
  have IH: "suggest_inner db uid c1 cs acc'
           = Inr (acc' @ concat (map (\<lambda>c2. suggested db uid (c1, c2)) cs))" for acc'
    using Cons by simp
  show ?case by (simp add: a IH suggested_def)
qed

lemma suggest_outer_complete:
  assumes "\<forall>c \<in> set cs. complete c"
  shows "suggest_outer db uid cs acc = Inr (acc @ concat (map (suggested db uid) (pairs cs)))"
  using assms
proof (induction cs arbitrary: acc)
  case Nil
  show ?case by simp
next
  case (Cons c1 cs)
  then have c: "complete c1" "\<forall>c \<in> set cs. complete c" by simp_all
  have IH: "suggest_outer db uid cs acc'
           = Inr (acc' @ concat (map (suggested db uid) (pairs cs)))" for acc'
    using Cons by simp
  show ?case
    by (simp add: suggest_inner_complete[OF c] IH comp_def)
qed

lemma suggest_inner_raises:
  assumes "\<not> complete c1 \<or> (\<exists>c \<in> set cs. \<not> complete c)" "cs \<noteq> []"
  shows "suggest_inner db uid c1 cs acc = Inl AttributeError"
  using assms
proof (induction cs arbitrary: acc)
  case Nil
  then show ?case by simp
next
  case (Cons c2 cs)
  show ?case
  proof (cases "complete c1 \<and> complete c2")
    case True
    then obtain a where
      a: "analyze_contact_similarity new_AIEngine (to_dict c1) (to_dict c2) = Inr a"
      using analyze_to_dict_returns by blast
    from True Cons.prems(1) have rest: "\<exists>c \<in> set cs. \<not> complete c" by auto
    then have "cs \<noteq> []" by auto
    with rest Cons.IH have "suggest_inner db uid c1 cs acc' = Inl AttributeError" for acc'
      by blast
    then show ?thesis by (simp add: a)
  next
    case False
    then have "analyze_contact_similarity new_AIEngine (to_dict c1) (to_dict c2) = Inl AttributeError"
      using analyze_to_dict_raises by blast
    then show ?thesis by simp
  qed
qed

lemma suggest_outer_raises:
  assumes "\<exists>c \<in> set cs. \<not> complete c" "2 \<le> length cs"
  shows "suggest_outer db uid cs acc = Inl AttributeError"
  using assms
proof (induction cs arbitrary: acc)
  case Nil
  then show ?case by simp
next
  case (Cons c1 cs)
  then have ne: "cs \<noteq> []" by auto
  show ?case
  proof (cases "complete c1 \<and> (\<forall>c \<in> set cs. complete c)")
    case True
    with Cons.prems(1) show ?thesis by auto
  next
    case False
    then have "suggest_inner db uid c1 cs acc = Inl AttributeError"
      using suggest_inner_raises[of c1 cs db uid acc] ne by blast
    then show ?thesis by simp
  qed
qed

text \<open>For a user all of whose contacts have text in the four columns, the handler
  appends to the connection table exactly what the claim describes, pair by pair in the
  order of the loops.\<close>

lemma generate_connections_complete:
  assumes "uid \<noteq> 0" "2 \<le> length (filter (\<lambda>c. c_user_id c = uid) (db_contacts db))"
    and "\<forall>c \<in> set (db_contacts db). c_user_id c = uid \<longrightarrow> complete c"
  shows "generate_connections db (Some uid)
           = (200, db\<lparr>db_connections := db_connections db
                @ concat (map (suggested db uid)
                            (pairs (filter (\<lambda>c. c_user_id c = uid) (db_contacts db))))\<rparr>)"
proof -
  have "\<forall>c \<in> set (filter (\<lambda>c. c_user_id c = uid) (db_contacts db)). complete c"
    using assms(3) by simp
  then show ?thesis
    using assms(1,2) by (simp add: generate_connections_def Let_def suggest_outer_complete)
qed

text \<open>For a user with two or more contacts, one of which lacks one of the four columns,
  the handler answers 500 and stores nothing.\<close>

lemma generate_connections_incomplete:
  assumes "uid \<noteq> 0" "2 \<le> length (filter (\<lambda>c. c_user_id c = uid) (db_contacts db))"
    and "\<exists>c \<in> set (db_contacts db). c_user_id c = uid \<and> \<not> complete c"
  shows "generate_connections db (Some uid) = (500, db)"
proof -
  have "\<exists>c \<in> set (filter (\<lambda>c. c_user_id c = uid) (db_contacts db)). \<not> complete c"
    using assms(3) by auto
  then have "suggest_outer db uid (filter (\<lambda>c. c_user_id c = uid) (db_contacts db)) []
           = Inl AttributeError"
    using assms(2) by (rule suggest_outer_raises)
  then show ?thesis
    using assms(1,2) by (simp add: generate_connections_def Let_def)
qed

text \<open>
  Claim C4. The claim says that for every user with at least two contacts
  \<^verbatim>\<open>generate_connections\<close> persists a pending connection for each pair that scores at
  least 0.3 and has none yet. User 1 has three contacts. Ana and Luis score 739/800 and
  have no connection, but the analysis of Ana and Eva raises on Eva's missing industry,
  the request ends with status 500 and the connection table stays empty: nothing is
  persisted for Ana and Luis either. (For users whose contacts all have the four columns
  the claim holds: \<open>generate_connections_complete\<close>.)
\<close>

theorem generate_connections_aborts_on_null:
  "generate_connections ex_db (Some 1) = (500, ex_db)
   \<and> length (filter (\<lambda>c. c_user_id c = 1) (db_contacts ex_db)) = 3
   \<and> map_option similarity_score
        (returned (analyze_contact_similarity new_AIEngine (to_dict ex_ana) (to_dict ex_luis)))
       = Some (739/800)
   \<and> \<not> existing ex_db 1 (c_id ex_ana) (c_id ex_luis)
   \<and> db_connections ex_db = []"
proof -
  have 1: "generate_connections ex_db (Some 1) = (500, ex_db)"
    by (rule generate_connections_incomplete)
       (simp_all add: ex_db_def ex_ana_def ex_luis_def ex_eva_def complete_def)
  have 2: "map_option similarity_score
        (returned (analyze_contact_similarity new_AIEngine (to_dict ex_ana) (to_dict ex_luis)))
       = Some (739/800)"
    by code_simp
  show ?thesis
    using 1 2 by (simp add: ex_db_def ex_ana_def ex_luis_def ex_eva_def existing_def)
qed

section \<open>The rate limiter as the gate of login and registration\<close>











text \<open>The condition on the windows holds when every check of the identifier uses one
  window length and the clock does not run backwards, as in the application, where
  \<^verbatim>\<open>login_<ip>\<close> is always checked with 15 minutes and \<^verbatim>\<open>register_<ip>\<close> with 60.\<close>

lemma one_window_length:
  assumes "\<forall>c \<in> set calls. \<forall>i m w' t. c = RateLimitCheck i m w' t \<and> i = identifier
             \<longrightarrow> w' = w \<and> t \<le> now"
  shows "\<forall>ws \<in> set (window_starts identifier calls). ws \<le> now - minutes w"
  using assms
proof (induction calls)
  case Nil
  show ?case by simp
next
  case (Cons c calls)
  then show ?case by (cases c) auto
qed

subsection \<open>The decorator guarantees the fields\<close>








section \<open>Status codes\<close>

subsection \<open>Registration\<close>




subsection \<open>Every handler\<close>











end
